theory Spec2Isabelle
  imports Main "HOL-Library.Word"
begin

section \<open>The qhull wrapper: Delaunay triangulation as triangle and neighbour index arrays\<close>

text \<open>
  A shallow embedding of \<^verbatim>\<open>_qhull_wrapper.cpp\<close>. The hull engine (libqhull\_r), the
  floating-point unit and the operating system are outside the file; they enter the model
  as the fields of an environment record, and every call the wrapper makes to them is
  logged in order.
\<close>

subsection \<open>Doubles and their comparison\<close>

text \<open>
  A \<^verbatim>\<open>double\<close> is its IEEE-754 binary64 bit pattern. The validator only compares doubles
  with \<^verbatim>\<open>!=\<close>, and that comparison is exact on bit patterns: a NaN (exponent all ones,
  fraction not zero) is unequal to everything, itself included; the two zeros are equal;
  any two other patterns are equal exactly when they are the same pattern.
\<close>

type_synonym double = "64 word"

definition isnan :: "double \<Rightarrow> bool" where
  "isnan d = (take_bit 11 (drop_bit 52 d) = mask 11 \<and> take_bit 52 d \<noteq> 0)"

definition iszero :: "double \<Rightarrow> bool" where
  "iszero d = (take_bit 63 d = 0)"

definition double_ne :: "double \<Rightarrow> double \<Rightarrow> bool" where
  "double_ne a b = (isnan a \<or> isnan b \<or> (a \<noteq> b \<and> \<not> (iszero a \<and> iszero b)))"


subsection \<open>at\_least\_3\_unique\_points\<close>

text \<open>
  The \<^verbatim>\<open>for\<close> loop of \<^verbatim>\<open>at_least_3_unique_points\<close>, from index \<open>i\<close> with the current
  value of \<^verbatim>\<open>unique2\<close>; \<^verbatim>\<open>unique1\<close> is the constant 0. The arrays are read at indices
  below \<open>npoints\<close> only, and the one caller passes arrays of exactly that length. The
  index \<open>i\<close> is a C \<^verbatim>\<open>int\<close> and \<open>npoints\<close> an \<^verbatim>\<open>npy_intp\<close>; both are natural numbers
  here, with no wrap-around.
\<close>

function unique_loop :: "nat \<Rightarrow> double list \<Rightarrow> double list \<Rightarrow> nat \<Rightarrow> nat \<Rightarrow> bool" where
  "unique_loop npoints x y i unique2 =
     (if i < npoints then
        (if unique2 = 0 then
           (if double_ne (x ! i) (x ! 0) \<or> double_ne (y ! i) (y ! 0)
            then unique_loop npoints x y (i + 1) i
            else unique_loop npoints x y (i + 1) unique2)
         else
           (if (double_ne (x ! i) (x ! 0) \<or> double_ne (y ! i) (y ! 0)) \<and>
               (double_ne (x ! i) (x ! unique2) \<or> double_ne (y ! i) (y ! unique2))
            then True
            else unique_loop npoints x y (i + 1) unique2))
      else False)"
  by pat_completeness auto
termination
  by (relation "measure (\<lambda>(npoints, x, y, i, unique2). npoints - i)") auto

declare unique_loop.simps [simp del]

definition at_least_3_unique_points :: "nat \<Rightarrow> double list \<Rightarrow> double list \<Rightarrow> bool" where
  "at_least_3_unique_points npoints x y =
     (if npoints < 3 then False else unique_loop npoints x y 1 0)"

subsection \<open>Errors\<close>

text \<open>
  What a call can end with instead of a result. \<open>ValueError\<close> and \<open>RuntimeError_qhull\<close> are
  the Python exceptions the wrapper sets itself; the latter stands for the message
  \<^verbatim>\<open>"Error in qhull Delaunay triangulation calculation: %s (exitcode=%d)%s"\<close> with its
  category text, its exit code, and whether the hint about the verbose option is appended.
  \<open>Cpp_runtime_error\<close> and \<open>Cpp_bad_alloc\<close> are the C++ exceptions thrown into \<^verbatim>\<open>CALL_CPP\<close>;
  \<open>Py_array_error\<close> is the failure of an output array's construction. \<open>Py_SystemError\<close>
  is what the interpreter raises when the call returns its tuple while an exception is set:
  the tuple is dropped. \<open>Cpp_undefined\<close> marks an execution that reads or writes outside
  an array, where C++ defines no behaviour.
\<close>

datatype error =
    ValueError string
  | RuntimeError_qhull string int bool
  | Cpp_runtime_error string
  | Cpp_bad_alloc
  | Py_array_error
  | Py_SystemError
  | Cpp_undefined

definition and_then :: "error + 'a \<Rightarrow> ('a \<Rightarrow> error + 'b) \<Rightarrow> error + 'b" where
  "and_then r f = (case r of Inl e \<Rightarrow> Inl e | Inr v \<Rightarrow> f v)"

subsection \<open>The engine's facets\<close>

text \<open>
  The wrapper reads five things of a facet: its \<^verbatim>\<open>id\<close>, the flags \<^verbatim>\<open>upperdelaunay\<close> and
  \<^verbatim>\<open>toporient\<close>, the set of its vertices, and the set of its neighbours. A vertex is
  represented by what the wrapper takes from it, \<^verbatim>\<open>qh_pointid(qh, vertex->point)\<close>. A
  neighbour is a pointer to another facet of the engine's facet list; it is represented by
  that facet's position in the list. The \<^verbatim>\<open>qhT\<close> record keeps the two members the
  wrapper reads after \<^verbatim>\<open>qh_triangulate\<close>: the facet list that \<^verbatim>\<open>FORALLfacets\<close> walks and
  the counter \<^verbatim>\<open>facet_id\<close>.
\<close>

record facetT =
  id_f :: nat
  upperdelaunay :: bool
  toporient :: bool
  vertices :: "int list"
  neighbors :: "nat list"

record qhT =
  facet_list :: "facetT list"
  facet_id :: nat

text \<open>
  \<^verbatim>\<open>qhull_error_msg[6]\<close>: the table has entries 0 to 5, and the wrapper indexes it with
  the exit code unchecked.
\<close>

definition qhull_error_msg :: "int \<Rightarrow> string option" where
  "qhull_error_msg exitcode =
     (if exitcode = 0 then Some []
      else if exitcode = 1 then Some ''input inconsistency''
      else if exitcode = 2 then Some ''singular input data''
      else if exitcode = 3 then Some ''precision error''
      else if exitcode = 4 then Some ''insufficient memory''
      else if exitcode = 5 then Some ''internal error''
      else None)"

text \<open>
  \<^verbatim>\<open>get_facet_vertices\<close> writes one point id for each vertex of the facet into
  \<^verbatim>\<open>indices[3]\<close>, which the caller then reads in full: with other than three vertices it
  writes past the buffer or leaves a slot unset.
\<close>

definition get_facet_vertices :: "facetT \<Rightarrow> error + int list" where
  "get_facet_vertices facet =
     (if length (vertices facet) = 3 then Inr (vertices facet) else Inl Cpp_undefined)"

text \<open>
  The body of the loop of \<^verbatim>\<open>get_facet_neighbours\<close> for one neighbour:
  \<^verbatim>\<open>neighbor->upperdelaunay ? -1 : tri_indices[neighbor->id]\<close>.
\<close>

definition neighbour_index :: "facetT list \<Rightarrow> int list \<Rightarrow> nat \<Rightarrow> error + int" where
  "neighbour_index facets tri_indices p =
     (if p < length facets then
        (let neighbor = facets ! p in
         if upperdelaunay neighbor then Inr (- 1)
         else if id_f neighbor < length tri_indices then Inr (tri_indices ! id_f neighbor)
         else Inl Cpp_undefined)
      else Inl Cpp_undefined)"

fun neighbour_indices :: "facetT list \<Rightarrow> int list \<Rightarrow> nat list \<Rightarrow> error + int list" where
  "neighbour_indices facets tri_indices [] = Inr []"
| "neighbour_indices facets tri_indices (p # ps) =
     and_then (neighbour_index facets tri_indices p) (\<lambda>v.
     and_then (neighbour_indices facets tri_indices ps) (\<lambda>vs. Inr (v # vs)))"

definition get_facet_neighbours :: "facetT list \<Rightarrow> facetT \<Rightarrow> int list \<Rightarrow> error + int list" where
  "get_facet_neighbours facets facet tri_indices =
     (if length (neighbors facet) = 3
      then neighbour_indices facets tri_indices (neighbors facet)
      else Inl Cpp_undefined)"

subsection \<open>The three passes over the facet list\<close>

text \<open>The first \<^verbatim>\<open>FORALLfacets\<close> loop: \<^verbatim>\<open>ntri\<close>.\<close>

fun ntri_pass :: "facetT list \<Rightarrow> int" where
  "ntri_pass [] = 0"
| "ntri_pass (facet # rest) =
     (if \<not> upperdelaunay facet then ntri_pass rest + 1 else ntri_pass rest)"

text \<open>
  The second loop, from the current value of \<open>i\<close> and of \<^verbatim>\<open>tri_indices\<close>: it returns the
  final \<^verbatim>\<open>tri_indices\<close> and the rows written through \<^verbatim>\<open>triangles_ptr\<close>.
\<close>

fun triangles_pass :: "facetT list \<Rightarrow> int \<Rightarrow> int list \<Rightarrow> error + (int list \<times> int list list)" where
  "triangles_pass [] i tri_indices = Inr (tri_indices, [])"
| "triangles_pass (facet # rest) i tri_indices =
     (if \<not> id_f facet < length tri_indices then Inl Cpp_undefined
      else if \<not> upperdelaunay facet then
        and_then (get_facet_vertices facet) (\<lambda>indices.
        and_then (triangles_pass rest (i + 1) (tri_indices[id_f facet := i])) (\<lambda>(tri_indices', rows).
          Inr (tri_indices',
               [if toporient facet then indices ! 0 else indices ! 2,
                indices ! 1,
                if toporient facet then indices ! 2 else indices ! 0] # rows)))
      else triangles_pass rest i (tri_indices[id_f facet := - 1]))"

text \<open>The third loop: the rows written through \<^verbatim>\<open>neighbors_ptr\<close>.\<close>

fun neighbors_pass :: "facetT list \<Rightarrow> int list \<Rightarrow> facetT list \<Rightarrow> error + int list list" where
  "neighbors_pass facets tri_indices [] = Inr []"
| "neighbors_pass facets tri_indices (facet # rest) =
     (if \<not> upperdelaunay facet then
        and_then (get_facet_neighbours facets facet tri_indices) (\<lambda>indices.
        and_then (neighbors_pass facets tri_indices rest) (\<lambda>rows.
          Inr ([if toporient facet then indices ! 2 else indices ! 0,
                if toporient facet then indices ! 0 else indices ! 2,
                indices ! 1] # rows)))
      else neighbors_pass facets tri_indices rest)"

text \<open>
  An output array has \<open>ntri\<close> rows from its allocation, and the rows are written through a
  running pointer. Writing more rows than that runs past the buffer, and writing fewer
  leaves rows that were never set.
\<close>

definition written :: "int \<Rightarrow> int list list \<Rightarrow> error + int list list" where
  "written ntri rows = (if int (length rows) = ntri then Inr rows else Inl Cpp_undefined)"

subsection \<open>The environment and the calls made to it\<close>

text \<open>
  The stream handed to the engine, and the calls of the wrapper to the engine, the C
  library and the Python runtime that matter for clean-up and diagnostics, logged in the
  order they are made.
\<close>

datatype error_file = Stderr_file | Devnull_file

datatype call =
    Fopen_devnull
  | Qh_zero error_file
  | Qh_new_qhull error_file
  | Qh_triangulate
  | Qh_freeqhull
  | Qh_memfreeshort
  | PyErr_WarnEx string
  | Fclose

datatype alloc_site =
    Points_vector
  | Tri_indices_vector
  | Triangles_array
  | Neighbors_array
  | Result_tuple

text \<open>
  Everything the wrapper takes from outside: the double arithmetic of the conditioner, whether
  each allocation and the opening of the null device succeed, whether \<^verbatim>\<open>PyErr_WarnEx\<close>
  fails (it returns -1 and leaves the warning set as an exception when warnings are turned
  into errors), and the engine. The engine is
  run with constant options on the conditioned points, so its exit code, the \<^verbatim>\<open>qhT\<close> it
  leaves after \<^verbatim>\<open>qh_triangulate\<close> and the two counts reported by its
  \<^verbatim>\<open>qh_memfreeshort\<close> are functions of those points. The stream it is given is opened for
  writing only, and the engine's text goes to it.
\<close>

record env =
  dadd :: "double \<Rightarrow> double \<Rightarrow> double"
  dsub :: "double \<Rightarrow> double \<Rightarrow> double"
  ddiv :: "double \<Rightarrow> double \<Rightarrow> double"
  dof_intp :: "nat \<Rightarrow> double"
  alloc_ok :: "alloc_site \<Rightarrow> bool"
  fopen_devnull_ok :: bool
  PyErr_WarnEx_fails :: bool
  qh_exitcode :: "double list \<Rightarrow> int"
  qh_triangulated :: "double list \<Rightarrow> qhT"
  qh_memfreeshort :: "double list \<Rightarrow> int \<times> int"

subsection \<open>delaunay\_impl\<close>

text \<open>The two loops that centre the coordinates; \<open>0\<close> is the bit pattern of \<^verbatim>\<open>0.0\<close>.\<close>

definition conditioned :: "env \<Rightarrow> nat \<Rightarrow> double list \<Rightarrow> double list \<Rightarrow> double list" where
  "conditioned env npoints x y =
     (let x_mean = ddiv env (foldl (dadd env) 0 (take npoints x)) (dof_intp env npoints);
          y_mean = ddiv env (foldl (dadd env) 0 (take npoints y)) (dof_intp env npoints)
      in concat (map (\<lambda>i. [dsub env (x ! i) x_mean, dsub env (y ! i) y_mean]) [0..<npoints]))"

text \<open>
  \<^verbatim>\<open>~QhullInfo\<close>: the calls made when the guard object goes out of scope, and whether it
  leaves a Python exception set. The destructor ignores what \<^verbatim>\<open>PyErr_WarnEx\<close> returns, so
  when that call fails the exception it has set stays behind.
\<close>

definition QhullInfo_destructor :: "env \<Rightarrow> double list \<Rightarrow> error_file \<Rightarrow> call list \<times> bool" where
  "QhullInfo_destructor env points error_file =
     (case qh_memfreeshort env points of (curlong, totlong) \<Rightarrow>
        ([Qh_freeqhull, Qh_memfreeshort] @
         (if curlong \<noteq> 0 \<or> totlong \<noteq> 0
          then [PyErr_WarnEx ''Qhull could not free all allocated memory''] else []) @
         (if error_file \<noteq> Stderr_file then [Fclose] else []),
         (curlong \<noteq> 0 \<or> totlong \<noteq> 0) \<and> PyErr_WarnEx_fails env))"

text \<open>
  The part of \<^verbatim>\<open>delaunay_impl\<close> inside the scope of the guard object \<^verbatim>\<open>info\<close>, from
  \<^verbatim>\<open>qh_zero\<close> to the \<^verbatim>\<open>return\<close>: its result and the calls it makes. The vector
  \<^verbatim>\<open>tri_indices\<close> is created with \<^verbatim>\<open>max_facet_id + 1\<close> entries, that is \<^verbatim>\<open>facet_id\<close> many,
  all zero. The counters \<open>i\<close> and \<open>ntri\<close> are C \<^verbatim>\<open>int\<close>s that count facets of the list;
  they are integers here, with no wrap-around. The start-up check \<^verbatim>\<open>QHULL_LIB_CHECK\<close> of
  the engine's library is left out.
\<close>

definition delaunay_impl_guarded ::
    "env \<Rightarrow> double list \<Rightarrow> bool \<Rightarrow> error_file \<Rightarrow> (error + int list list \<times> int list list) \<times> call list" where
  "delaunay_impl_guarded env points hide_qhull_errors error_file =
     (let exitcode = qh_exitcode env points in
      if exitcode \<noteq> 0 then
        (case qhull_error_msg exitcode of
           None \<Rightarrow> Inl Cpp_undefined
         | Some msg \<Rightarrow> Inl (RuntimeError_qhull msg exitcode hide_qhull_errors),
         [Qh_zero error_file, Qh_new_qhull error_file])
      else
        (let qh = qh_triangulated env points;
             ntri = ntri_pass (facet_list qh)
         in
           (if \<not> alloc_ok env Tri_indices_vector then Inl Cpp_bad_alloc
            else if \<not> alloc_ok env Triangles_array then Inl Py_array_error
            else if \<not> alloc_ok env Neighbors_array then Inl Py_array_error
            else
              and_then (triangles_pass (facet_list qh) 0 (replicate (facet_id qh) 0))
                (\<lambda>(tri_indices, triangle_rows).
              and_then (written ntri triangle_rows) (\<lambda>triangles.
              and_then (neighbors_pass (facet_list qh) tri_indices (facet_list qh))
                (\<lambda>neighbor_rows.
              and_then (written ntri neighbor_rows) (\<lambda>neighbors.
                if \<not> alloc_ok env Result_tuple
                then Inl (Cpp_runtime_error ''Failed to create Python tuple'')
                else Inr (triangles, neighbors))))),
            [Qh_zero error_file, Qh_new_qhull error_file, Qh_triangulate])))"

text \<open>
  \<^verbatim>\<open>delaunay_impl\<close> as a whole. The guard object is destroyed after the return value is
  formed. When the body returns its tuple and the destructor leaves an exception set, the
  caller gets \<open>Py_SystemError\<close> and not the tuple; when the body has failed, the caller gets
  the error already raised or thrown.
\<close>

definition delaunay_impl ::
    "env \<Rightarrow> nat \<Rightarrow> double list \<Rightarrow> double list \<Rightarrow> bool \<Rightarrow> (error + int list list \<times> int list list) \<times> call list" where
  "delaunay_impl env npoints x y hide_qhull_errors =
     (if \<not> alloc_ok env Points_vector then (Inl Cpp_bad_alloc, [])
      else
        (let points = conditioned env npoints x y in
         if hide_qhull_errors \<and> \<not> fopen_devnull_ok env
         then (Inl (Cpp_runtime_error ''Could not open devnull''), [Fopen_devnull])
         else
           (let error_file = (if hide_qhull_errors then Devnull_file else Stderr_file) in
            case delaunay_impl_guarded env points hide_qhull_errors error_file of
              (result, calls) \<Rightarrow>
                (case QhullInfo_destructor env points error_file of
                   (cleanup, exception_set) \<Rightarrow>
                     (case result of
                        Inr arrays \<Rightarrow> if exception_set then Inl Py_SystemError else Inr arrays
                      | Inl e \<Rightarrow> Inl e,
                      (if hide_qhull_errors then [Fopen_devnull] else []) @ calls @ cleanup)))))"

subsection \<open>delaunay\<close>

text \<open>
  The entry point, after \<^verbatim>\<open>PyArg_ParseTuple\<close> has produced the two arrays of doubles and
  the integer \<^verbatim>\<open>verbose\<close>. \<^verbatim>\<open>CALL_CPP\<close> turns a C++ exception into a Python one; the
  exception is kept as it was thrown.
\<close>

definition delaunay ::
    "env \<Rightarrow> double list \<Rightarrow> double list \<Rightarrow> int \<Rightarrow> (error + int list list \<times> int list list) \<times> call list" where
  "delaunay env xarray yarray verbose =
     (let npoints = length xarray in
      if npoints \<noteq> length yarray
      then (Inl (ValueError ''x and y must be 1D arrays of the same length''), [])
      else if npoints < 3
      then (Inl (ValueError ''x and y arrays must have a length of at least 3''), [])
      else if \<not> at_least_3_unique_points npoints xarray yarray
      then (Inl (ValueError ''x and y arrays must consist of at least 3 unique points''), [])
      else delaunay_impl env npoints xarray yarray (verbose = 0))"

subsection \<open>Notions used to state the properties\<close>

text \<open>The facets that become triangles, in the order of the facet list.\<close>

definition retained :: "facetT list \<Rightarrow> facetT list" where
  "retained facets = filter (\<lambda>facet. \<not> upperdelaunay facet) facets"

text \<open>
  The engine state and the facet list that \<^verbatim>\<open>delaunay_impl\<close> translates when called
  with \<open>npoints\<close>, \<open>x\<close> and \<open>y\<close>.
\<close>

definition engine_qh :: "env \<Rightarrow> nat \<Rightarrow> double list \<Rightarrow> double list \<Rightarrow> qhT" where
  "engine_qh env npoints x y = qh_triangulated env (conditioned env npoints x y)"

definition engine_facets :: "env \<Rightarrow> nat \<Rightarrow> double list \<Rightarrow> double list \<Rightarrow> facetT list" where
  "engine_facets env npoints x y = facet_list (engine_qh env npoints x y)"

text \<open>
  The map from facet id to triangle index as the second loop leaves it, for an engine state.
\<close>

definition tri_indices_of :: "qhT \<Rightarrow> int list" where
  "tri_indices_of qh =
     (case triangles_pass (facet_list qh) 0 (replicate (facet_id qh) 0) of
        Inr (tri_indices, rows) \<Rightarrow> tri_indices
      | Inl e \<Rightarrow> [])"

text \<open>
  The reordering of vertices in the words of the specification, and the reordering of
  neighbours as the specification words it: the vertex reordering with columns 0 and 2
  swapped.
\<close>

definition reorder_vertices :: "int list \<Rightarrow> bool \<Rightarrow> int list" where
  "reorder_vertices slots orient =
     (if orient then [slots ! 0, slots ! 1, slots ! 2] else [slots ! 2, slots ! 1, slots ! 0])"

definition reorder_neighbors_spec :: "int list \<Rightarrow> bool \<Rightarrow> int list" where
  "reorder_neighbors_spec slots orient =
     (let row = reorder_vertices slots orient in [row ! 2, row ! 1, row ! 0])"

text \<open>
  What a caller can tell of a failure: which invalid-input message, or which engine category
  and exit code, or another error.
\<close>

datatype classification =
    Succeeded
  | Invalid_input string
  | Engine_error string int
  | Other_failure error

definition classification :: "error + 'a \<Rightarrow> classification" where
  "classification r =
     (case r of
        Inr v \<Rightarrow> Succeeded
      | Inl (ValueError msg) \<Rightarrow> Invalid_input msg
      | Inl (RuntimeError_qhull category exitcode hint) \<Rightarrow> Engine_error category exitcode
      | Inl e \<Rightarrow> Other_failure e)"

text \<open>
  An array translated by the constant \<open>k\<close>, each sum computed in double arithmetic: the
  caller's \<^verbatim>\<open>x + k\<close>.
\<close>

definition translated :: "env \<Rightarrow> double \<Rightarrow> double list \<Rightarrow> double list" where
  "translated env k xs = map (\<lambda>a. dadd env a k) xs"

text \<open>
  What the wrapper relies on in the engine state it translates: every facet of the list has
  an id below the counter \<^verbatim>\<open>facet_id\<close>, three vertices and three neighbours, and every
  neighbour is a facet of the list.
\<close>

definition simplicial :: "qhT \<Rightarrow> bool" where
  "simplicial qh =
     list_all (\<lambda>facet. id_f facet < facet_id qh \<and> length (vertices facet) = 3 \<and>
                        length (neighbors facet) = 3 \<and>
                        list_all (\<lambda>p. p < length (facet_list qh)) (neighbors facet))
       (facet_list qh)"

text \<open>The calls after which the engine holds memory of its own.\<close>

fun engine_call :: "call \<Rightarrow> bool" where
  "engine_call (Qh_zero error_file) = True"
| "engine_call (Qh_new_qhull error_file) = True"
| "engine_call Qh_triangulate = True"
| "engine_call c = False"

subsection \<open>A concrete run\<close>

text \<open>
  An engine state with five facets of sparse ids 1, 2, 4, 5 and 7, the second and the fourth
  on the upper hull, and an environment whose engine returns it with a given exit code and
  reports a given pair of counts at clean-up. The arithmetic of the environment is a
  stand-in: this engine ignores its points. The arrays are the corners of the unit square
  and its centre, \<open>0x3FF0000000000000\<close> being \<^verbatim>\<open>1.0\<close> and \<open>0x3FE0000000000000\<close> being
  \<^verbatim>\<open>0.5\<close>.
\<close>

definition example_qh :: qhT where
  "example_qh =
     \<lparr>facet_list =
        [\<lparr>id_f = 1, upperdelaunay = False, toporient = True, vertices = [3, 1, 0], neighbors = [2, 1, 4]\<rparr>,
         \<lparr>id_f = 2, upperdelaunay = True, toporient = False, vertices = [3, 2, 1], neighbors = [0, 2, 3]\<rparr>,
         \<lparr>id_f = 4, upperdelaunay = False, toporient = False, vertices = [3, 2, 0], neighbors = [1, 0, 4]\<rparr>,
         \<lparr>id_f = 5, upperdelaunay = True, toporient = True, vertices = [2, 1, 0], neighbors = [0, 1, 2]\<rparr>,
         \<lparr>id_f = 7, upperdelaunay = False, toporient = True, vertices = [4, 2, 1], neighbors = [0, 2, 3]\<rparr>],
      facet_id = 8\<rparr>"

definition example_env :: "bool \<Rightarrow> int \<Rightarrow> int \<times> int \<Rightarrow> env" where
  "example_env devnull exitcode residual =
     \<lparr>dadd = (\<lambda>a b. 0), dsub = (\<lambda>a b. 0), ddiv = (\<lambda>a b. 0), dof_intp = (\<lambda>n. 0),
      alloc_ok = (\<lambda>site. True), fopen_devnull_ok = devnull, PyErr_WarnEx_fails = False,
      qh_exitcode = (\<lambda>points. exitcode),
      qh_triangulated = (\<lambda>points. example_qh),
      qh_memfreeshort = (\<lambda>points. residual)\<rparr>"



definition square_x :: "double list" where
  "square_x = [0, 0x3FF0000000000000, 0x3FF0000000000000, 0, 0x3FE0000000000000]"

definition square_y :: "double list" where
  "square_y = [0, 0, 0x3FF0000000000000, 0x3FF0000000000000, 0x3FE0000000000000]"

subsection \<open>A concrete run with the sums of IEEE arithmetic\<close>

text \<open>
  The environment of the concrete run, with an arithmetic that is a table of IEEE-754
  results (round to nearest): every sum, quotient and difference that arises when the corners
  and the centre of the unit square are translated by \<^verbatim>\<open>1.0\<close> and by \<open>2\<^sup>6\<^sup>0\<close> and then
  centred. The patterns are those of 0, 0.5, 1, 1.5, 2, 2.5, 3, 4, 5, 6, 7.5, -0.5 and
  \<open>2\<^sup>6\<^sup>0\<close>; adding 0, 0.5 or 1 to \<open>2\<^sup>6\<^sup>0\<close> gives \<open>2\<^sup>6\<^sup>0\<close>, a double having 53 bits of
  precision.
\<close>

definition two_pow_60 :: double where
  "two_pow_60 = 0x43B0000000000000"






section \<open>The passes over the facet list\<close>

lemma and_then_Inr_iff: "and_then r f = Inr v \<longleftrightarrow> (\<exists>u. r = Inr u \<and> f u = Inr v)"
  by (cases r) (simp_all add: and_then_def)

lemma ntri_pass_retained: "ntri_pass fs = int (length (retained fs))"
  by (induction fs) (simp_all add: retained_def)

lemma triangles_pass_rows:
  "triangles_pass fs i ti = Inr (ti', rows) \<Longrightarrow>
     list_all2 (\<lambda>f row. length (vertices f) = 3 \<and>
        row = [if toporient f then vertices f ! 0 else vertices f ! 2, vertices f ! 1,
               if toporient f then vertices f ! 2 else vertices f ! 0]) (retained fs) rows"
proof (induction fs arbitrary: i ti ti' rows)
  case Nil
  then show ?case by (simp add: retained_def)
next
  case (Cons f fs)
  show ?case
  proof (cases "upperdelaunay f")
    case True
    with Cons.prems have "triangles_pass fs i (ti[id_f f := - 1]) = Inr (ti', rows)"
      by (simp split: if_splits)
    from Cons.IH [OF this] True show ?thesis by (simp add: retained_def)
  next
    case False
    with Cons.prems obtain rows' where
      v: "length (vertices f) = 3" and
      r: "triangles_pass fs (i + 1) (ti[id_f f := i]) = Inr (ti', rows')" and
      e: "rows = [if toporient f then vertices f ! 0 else vertices f ! 2, vertices f ! 1,
               if toporient f then vertices f ! 2 else vertices f ! 0] # rows'"
      by (auto simp: and_then_Inr_iff get_facet_vertices_def split: if_splits)
    from Cons.IH [OF r] v e False show ?thesis by (simp add: retained_def)
  qed
qed

lemma triangles_pass_length:
  "triangles_pass fs i ti = Inr (ti', rows) \<Longrightarrow> length ti' = length ti"
proof (induction fs arbitrary: i ti ti' rows)
  case Nil
  then show ?case by simp
next
  case (Cons f fs)
  show ?case
  proof (cases "upperdelaunay f")
    case True
    with Cons.prems have "triangles_pass fs i (ti[id_f f := - 1]) = Inr (ti', rows)"
      by (simp split: if_splits)
    from Cons.IH [OF this] show ?thesis by simp
  next
    case False
    with Cons.prems obtain rows' where
      "triangles_pass fs (i + 1) (ti[id_f f := i]) = Inr (ti', rows')"
      by (auto simp: and_then_Inr_iff split: if_splits)
    from Cons.IH [OF this] show ?thesis by simp
  qed
qed

text \<open>Every entry of the index map is -1, or 0, or an index already handed out.\<close>

lemma triangles_pass_range:
  assumes "triangles_pass fs i ti = Inr (ti', rows)"
      and "0 \<le> i"
      and "\<forall>e \<in> set ti. e = - 1 \<or> e = 0 \<or> (0 \<le> e \<and> e < i)"
  shows "\<forall>e \<in> set ti'. e = - 1 \<or> e = 0 \<or> (0 \<le> e \<and> e < i + ntri_pass fs)"
  using assms
proof (induction fs arbitrary: i ti ti' rows)
  case Nil
  then show ?case by simp
next
  case (Cons f fs)
  show ?case
  proof (cases "upperdelaunay f")
    case True
    with Cons.prems(1) have r: "triangles_pass fs i (ti[id_f f := - 1]) = Inr (ti', rows)"
      by (simp split: if_splits)
    have "\<forall>e \<in> set (ti[id_f f := - 1]). e = - 1 \<or> e = 0 \<or> (0 \<le> e \<and> e < i)"
      using Cons.prems(3) by (auto dest!: set_update_subset_insert [THEN subsetD])
    from Cons.IH [OF r Cons.prems(2) this] True show ?thesis by simp
  next
    case False
    with Cons.prems(1) obtain rows' where
      r: "triangles_pass fs (i + 1) (ti[id_f f := i]) = Inr (ti', rows')"
      by (auto simp: and_then_Inr_iff split: if_splits)
    have "\<forall>e \<in> set (ti[id_f f := i]). e = - 1 \<or> e = 0 \<or> (0 \<le> e \<and> e < i + 1)"
      using Cons.prems(2,3) by (auto dest!: set_update_subset_insert [THEN subsetD])
    moreover have "0 \<le> i + 1" using Cons.prems(2) by simp
    ultimately have "\<forall>e \<in> set ti'. e = - 1 \<or> e = 0 \<or> (0 \<le> e \<and> e < i + 1 + ntri_pass fs)"
      using Cons.IH [OF r] by blast
    with False show ?thesis by (simp add: ac_simps)
  qed
qed


text \<open>A slot of the index map that no later facet owns keeps its value.\<close>

lemma triangles_pass_untouched:
  "triangles_pass fs i ti = Inr (ti', rows) \<Longrightarrow> n \<notin> id_f ` set fs \<Longrightarrow> ti' ! n = ti ! n"
proof (induction fs arbitrary: i ti ti' rows)
  case Nil
  then show ?case by simp
next
  case (Cons f fs)
  from Cons.prems(2) have ne: "id_f f \<noteq> n" and rest: "n \<notin> id_f ` set fs" by auto
  show ?case
  proof (cases "upperdelaunay f")
    case True
    with Cons.prems(1) have "triangles_pass fs i (ti[id_f f := - 1]) = Inr (ti', rows)"
      by (simp split: if_splits)
    from Cons.IH [OF this rest] ne show ?thesis by simp
  next
    case False
    with Cons.prems(1) obtain rows' where
      "triangles_pass fs (i + 1) (ti[id_f f := i]) = Inr (ti', rows')"
      by (auto simp: and_then_Inr_iff split: if_splits)
    from Cons.IH [OF this rest] ne show ?thesis by simp
  qed
qed

text \<open>
  With distinct facet ids, the facet at position \<open>p\<close> ends with -1 when it is on the upper
  hull, and otherwise with the start index plus the number of retained facets before it.
\<close>

lemma triangles_pass_index:
  assumes "triangles_pass fs i ti = Inr (ti', rows)"
      and "distinct (map id_f fs)"
      and "p < length fs"
  shows "ti' ! id_f (fs ! p) =
           (if upperdelaunay (fs ! p) then - 1 else i + int (length (retained (take p fs))))"
  using assms
proof (induction fs arbitrary: i ti ti' rows p)
  case Nil
  then show ?case by simp
next
  case (Cons f fs)
  from Cons.prems(2) have fresh: "id_f f \<notin> id_f ` set fs" and d: "distinct (map id_f fs)"
    by auto
  from Cons.prems(1) have inb: "id_f f < length ti"
    by (simp split: if_splits)
  show ?case
  proof (cases "upperdelaunay f")
    case True
    with Cons.prems(1) have r: "triangles_pass fs i (ti[id_f f := - 1]) = Inr (ti', rows)"
      by (simp split: if_splits)
    show ?thesis
    proof (cases p)
      case 0
      from triangles_pass_untouched [OF r fresh] inb True 0 show ?thesis by simp
    next
      case (Suc q)
      with Cons.prems(3) have "q < length fs" by simp
      from Cons.IH [OF r d this] True Suc show ?thesis by (simp add: retained_def)
    qed
  next
    case False
    with Cons.prems(1) obtain rows' where
      r: "triangles_pass fs (i + 1) (ti[id_f f := i]) = Inr (ti', rows')"
      by (auto simp: and_then_Inr_iff split: if_splits)
    show ?thesis
    proof (cases p)
      case 0
      from triangles_pass_untouched [OF r fresh] inb False 0 show ?thesis
        by (simp add: retained_def)
    next
      case (Suc q)
      with Cons.prems(3) have "q < length fs" by simp
      from Cons.IH [OF r d this] False Suc show ?thesis by (simp add: retained_def)
    qed
  qed
qed

lemma neighbour_indices_nth:
  "neighbour_indices facets ti ps = Inr m \<Longrightarrow>
     list_all2 (\<lambda>p v. neighbour_index facets ti p = Inr v) ps m"
proof (induction ps arbitrary: m)
  case Nil
  then show ?case by simp
next
  case (Cons p ps)
  then obtain v vs where "neighbour_index facets ti p = Inr v"
      and "neighbour_indices facets ti ps = Inr vs" and "m = v # vs"
    by (auto simp: and_then_Inr_iff)
  with Cons.IH show ?case by simp
qed

lemma get_facet_neighbours_Inr:
  assumes "get_facet_neighbours facets facet ti = Inr m"
  shows "length m = 3 \<and> length (neighbors facet) = 3 \<and>
         (\<forall>j<3. neighbour_index facets ti (neighbors facet ! j) = Inr (m ! j))"
proof -
  from assms have l: "length (neighbors facet) = 3"
    and n: "neighbour_indices facets ti (neighbors facet) = Inr m"
    by (simp_all add: get_facet_neighbours_def split: if_splits)
  from neighbour_indices_nth [OF n] l show ?thesis
    by (auto simp: list_all2_conv_all_nth)
qed

lemma neighbors_pass_rows:
  "neighbors_pass facets ti fs = Inr rows \<Longrightarrow>
     list_all2 (\<lambda>f row. \<exists>m. get_facet_neighbours facets f ti = Inr m \<and>
        row = [if toporient f then m ! 2 else m ! 0, if toporient f then m ! 0 else m ! 2, m ! 1])
       (retained fs) rows"
proof (induction fs arbitrary: rows)
  case Nil
  then show ?case by (simp add: retained_def)
next
  case (Cons f fs)
  show ?case
  proof (cases "upperdelaunay f")
    case True
    with Cons.prems have "neighbors_pass facets ti fs = Inr rows" by simp
    from Cons.IH [OF this] True show ?thesis by (simp add: retained_def)
  next
    case False
    with Cons.prems obtain m rows' where
      g: "get_facet_neighbours facets f ti = Inr m" and
      r: "neighbors_pass facets ti fs = Inr rows'" and
      e: "rows = [if toporient f then m ! 2 else m ! 0, if toporient f then m ! 0 else m ! 2, m ! 1] # rows'"
      by (auto simp: and_then_Inr_iff)
    from Cons.IH [OF r] g e False show ?thesis by (simp add: retained_def)
  qed
qed

lemma delaunay_impl_InrD:
  assumes "fst (delaunay_impl env n x y hide) = Inr (T, N)"
  shows "\<exists>ti. triangles_pass (engine_facets env n x y) 0
                 (replicate (facet_id (engine_qh env n x y)) 0) = Inr (ti, T) \<and>
              neighbors_pass (engine_facets env n x y) ti (engine_facets env n x y) = Inr N"
  using assms
  by (auto simp: delaunay_impl_def delaunay_impl_guarded_def Let_def and_then_Inr_iff written_def
      engine_facets_def engine_qh_def
      split: if_splits prod.splits option.splits sum.splits)

lemma delaunay_impl_passes:
  assumes "fst (delaunay_impl env n x y hide) = Inr (T, N)"
  shows "triangles_pass (engine_facets env n x y) 0
           (replicate (facet_id (engine_qh env n x y)) 0) = Inr (tri_indices_of (engine_qh env n x y), T)"
    and "neighbors_pass (engine_facets env n x y) (tri_indices_of (engine_qh env n x y))
           (engine_facets env n x y) = Inr N"
proof -
  from delaunay_impl_InrD [OF assms] obtain ti where
    t: "triangles_pass (engine_facets env n x y) 0
          (replicate (facet_id (engine_qh env n x y)) 0) = Inr (ti, T)" and
    nb: "neighbors_pass (engine_facets env n x y) ti (engine_facets env n x y) = Inr N"
    by blast
  from t have "tri_indices_of (engine_qh env n x y) = ti"
    by (simp add: tri_indices_of_def engine_facets_def)
  with t nb show "triangles_pass (engine_facets env n x y) 0
           (replicate (facet_id (engine_qh env n x y)) 0) = Inr (tri_indices_of (engine_qh env n x y), T)"
    and "neighbors_pass (engine_facets env n x y) (tri_indices_of (engine_qh env n x y))
           (engine_facets env n x y) = Inr N"
    by simp_all
qed

lemma triangle_row_at:
  assumes "fst (delaunay_impl env n x y hide) = Inr (T, N)"
      and "k < length (retained (engine_facets env n x y))"
  shows "length (vertices (retained (engine_facets env n x y) ! k)) = 3"
    and "T ! k =
           [if toporient (retained (engine_facets env n x y) ! k)
            then vertices (retained (engine_facets env n x y) ! k) ! 0
            else vertices (retained (engine_facets env n x y) ! k) ! 2,
            vertices (retained (engine_facets env n x y) ! k) ! 1,
            if toporient (retained (engine_facets env n x y) ! k)
            then vertices (retained (engine_facets env n x y) ! k) ! 2
            else vertices (retained (engine_facets env n x y) ! k) ! 0]"
  using triangles_pass_rows [OF delaunay_impl_passes(1) [OF assms(1)]] assms(2)
  by (simp_all add: list_all2_conv_all_nth)

lemma neighbor_row_at:
  assumes "fst (delaunay_impl env n x y hide) = Inr (T, N)"
      and "k < length (retained (engine_facets env n x y))"
  shows "\<exists>m. get_facet_neighbours (engine_facets env n x y)
               (retained (engine_facets env n x y) ! k)
               (tri_indices_of (engine_qh env n x y)) = Inr m \<and>
             N ! k =
               [if toporient (retained (engine_facets env n x y) ! k) then m ! 2 else m ! 0,
                if toporient (retained (engine_facets env n x y) ! k) then m ! 0 else m ! 2,
                m ! 1]"
  using neighbors_pass_rows [OF delaunay_impl_passes(2) [OF assms(1)]] assms(2)
  by (auto simp: list_all2_conv_all_nth)

lemma length_3_list: "length xs = 3 \<Longrightarrow> \<exists>a b c. xs = [a, b, c]"
  by (auto simp: length_Suc_conv numeral_3_eq_3)

lemma neighbour_index_range:
  assumes "neighbour_index facets ti p = Inr v"
      and "\<forall>e \<in> set ti. e = - 1 \<or> e = 0 \<or> (0 \<le> e \<and> e < b)"
      and "0 < b"
  shows "v = - 1 \<or> (0 \<le> v \<and> v < b)"
proof -
  from assms(1) have "v = - 1 \<or> v \<in> set ti"
    by (auto simp: neighbour_index_def Let_def split: if_splits)
  with assms(2,3) show ?thesis by auto
qed

lemma neighbour_index_upper:
  "neighbour_index facets ti p = Inr v \<Longrightarrow> upperdelaunay (facets ! p) \<Longrightarrow> v = - 1"
  by (auto simp: neighbour_index_def Let_def split: if_splits)

subsection \<open>The concrete run, evaluated\<close>

lemma example_facets:
  "engine_facets (example_env devnull 0 residual) n x y = facet_list example_qh"
  by (simp add: engine_facets_def engine_qh_def example_env_def)

lemma example_retained:
  "retained (facet_list example_qh) =
     [facet_list example_qh ! 0, facet_list example_qh ! 2, facet_list example_qh ! 4]"
  by (simp add: retained_def example_qh_def)

lemma example_result:
  "fst (delaunay_impl (example_env True 0 (0, 0)) 5 square_x square_y True) =
     Inr ([[3, 1, 0], [0, 2, 3], [4, 2, 1]], [[2, 1, - 1], [- 1, 2, 0], [- 1, 0, 1]])"
  by code_simp

lemma example_tri_indices:
  "tri_indices_of example_qh = [0, 0, - 1, 0, 1, - 1, 0, 2]"
  by code_simp


section \<open>The validator\<close>
















section \<open>Failures of delaunay\_impl\<close>







lemma destructor_fst:
  "fst (QhullInfo_destructor env points error_file) =
     [Qh_freeqhull, Qh_memfreeshort] @
     (if qh_memfreeshort env points \<noteq> (0, 0)
      then [PyErr_WarnEx ''Qhull could not free all allocated memory''] else []) @
     (if error_file \<noteq> Stderr_file then [Fclose] else [])"
  by (cases "qh_memfreeshort env points") (auto simp: QhullInfo_destructor_def)

lemma destructor_snd:
  "snd (QhullInfo_destructor env points error_file) =
     (qh_memfreeshort env points \<noteq> (0, 0) \<and> PyErr_WarnEx_fails env)"
  by (cases "qh_memfreeshort env points") (auto simp: QhullInfo_destructor_def)

lemma delaunay_impl_fst:
  "fst (delaunay_impl env n x y hide) =
     (if \<not> alloc_ok env Points_vector then Inl Cpp_bad_alloc
      else if hide \<and> \<not> fopen_devnull_ok env
      then Inl (Cpp_runtime_error ''Could not open devnull'')
      else (case fst (delaunay_impl_guarded env (conditioned env n x y) hide
                        (if hide then Devnull_file else Stderr_file)) of
              Inr arrays \<Rightarrow>
                if qh_memfreeshort env (conditioned env n x y) \<noteq> (0, 0) \<and> PyErr_WarnEx_fails env
                then Inl Py_SystemError else Inr arrays
            | Inl e \<Rightarrow> Inl e))"
  by (simp add: delaunay_impl_def Let_def case_prod_beta destructor_snd)


section \<open>Results and calls of the entry points\<close>

lemma delaunay_impl_guarded_error:
  assumes "qh_exitcode env points = c" and "c \<noteq> 0"
  shows "fst (delaunay_impl_guarded env points hide error_file) =
           (case qhull_error_msg c of
              None \<Rightarrow> Inl Cpp_undefined
            | Some msg \<Rightarrow> Inl (RuntimeError_qhull msg c hide))"
  using assms by (simp add: delaunay_impl_guarded_def)

lemma classification_guarded:
  "classification (fst (delaunay_impl_guarded env points hide error_file)) =
   classification (fst (delaunay_impl_guarded env points hide' error_file'))"
  by (simp add: delaunay_impl_guarded_def Let_def classification_def split: option.splits)

lemma delaunay_fst:
  "fst (delaunay env x y verbose) =
     (if length x \<noteq> length y
      then Inl (ValueError ''x and y must be 1D arrays of the same length'')
      else if length x < 3
      then Inl (ValueError ''x and y arrays must have a length of at least 3'')
      else if \<not> at_least_3_unique_points (length x) x y
      then Inl (ValueError ''x and y arrays must consist of at least 3 unique points'')
      else fst (delaunay_impl env (length x) x y (verbose = 0)))"
  by (simp add: delaunay_def Let_def)

lemma delaunay_impl_snd:
  "snd (delaunay_impl env n x y hide) =
     (if \<not> alloc_ok env Points_vector then []
      else if hide \<and> \<not> fopen_devnull_ok env then [Fopen_devnull]
      else (if hide then [Fopen_devnull] else []) @
           snd (delaunay_impl_guarded env (conditioned env n x y) hide
                  (if hide then Devnull_file else Stderr_file)) @
           fst (QhullInfo_destructor env (conditioned env n x y)
                  (if hide then Devnull_file else Stderr_file)))"
  by (simp add: delaunay_impl_def Let_def case_prod_beta)

lemma delaunay_impl_guarded_snd:
  "snd (delaunay_impl_guarded env points hide error_file) =
     (if qh_exitcode env points \<noteq> 0
      then [Qh_zero error_file, Qh_new_qhull error_file]
      else [Qh_zero error_file, Qh_new_qhull error_file, Qh_triangulate])"
  by (simp add: delaunay_impl_guarded_def Let_def)

lemma delaunay_snd:
  "snd (delaunay env x y verbose) =
     (if length x \<noteq> length y \<or> length x < 3 \<or> \<not> at_least_3_unique_points (length x) x y
      then [] else snd (delaunay_impl env (length x) x y (verbose = 0)))"
  by (simp add: delaunay_def Let_def)

lemma destructor_calls:
  "set (fst (QhullInfo_destructor env points error_file)) \<subseteq>
     {Qh_freeqhull, Qh_memfreeshort, PyErr_WarnEx ''Qhull could not free all allocated memory'', Fclose}"
  by (auto simp: destructor_fst split: if_splits)

lemma destructor_shape:
  "\<exists>post. fst (QhullInfo_destructor env points error_file) =
            [Qh_freeqhull, Qh_memfreeshort] @ post \<and>
          (\<forall>c \<in> set post. \<not> engine_call c)"
  by (auto simp: destructor_fst)

lemma conditioned_residual [simp]:
  "conditioned (env\<lparr>qh_memfreeshort := r\<rparr>) n x y = conditioned env n x y"
  by (simp add: conditioned_def)

lemma delaunay_impl_guarded_residual [simp]:
  "delaunay_impl_guarded (env\<lparr>qh_memfreeshort := r\<rparr>) points hide error_file =
   delaunay_impl_guarded env points hide error_file"
  by (simp add: delaunay_impl_guarded_def Let_def)


lemma large_shift_rejected:
  assumes "dadd env 0 two_pow_60 = two_pow_60"
      and "dadd env 0x3FF0000000000000 two_pow_60 = two_pow_60"
      and "dadd env 0x3FE0000000000000 two_pow_60 = two_pow_60"
  shows "delaunay env (translated env two_pow_60 square_x) (translated env two_pow_60 square_y)
           verbose =
           (Inl (ValueError ''x and y arrays must consist of at least 3 unique points''), []) \<and>
         fst (delaunay env square_x square_y verbose) =
           fst (delaunay_impl env 5 square_x square_y (verbose = 0))"
proof -
  have t: "translated env two_pow_60 square_x = replicate 5 two_pow_60"
    "translated env two_pow_60 square_y = replicate 5 two_pow_60"
    using assms by (simp_all add: translated_def square_x_def square_y_def numeral_eq_Suc)
  have r: "\<not> at_least_3_unique_points 5 (replicate 5 two_pow_60) (replicate 5 two_pow_60)"
    by code_simp
  have v: "at_least_3_unique_points 5 square_x square_y"
    by code_simp
  have l: "length square_x = 5" "length square_y = 5"
    by (simp_all add: square_x_def square_y_def)
  from r have "delaunay env (replicate 5 two_pow_60) (replicate 5 two_pow_60) verbose =
           (Inl (ValueError ''x and y arrays must consist of at least 3 unique points''), [])"
    by (simp add: delaunay_def Let_def)
  moreover from v l have "fst (delaunay env square_x square_y verbose) =
           fst (delaunay_impl env 5 square_x square_y (verbose = 0))"
    by (simp add: delaunay_fst)
  ultimately show ?thesis by (simp add: t)
qed



section \<open>The translation runs to its end\<close>

lemma triangles_pass_total:
  "list_all (\<lambda>f. id_f f < length ti \<and> length (vertices f) = 3) fs \<Longrightarrow>
     \<exists>ti' rows. triangles_pass fs i ti = Inr (ti', rows)"
proof (induction fs arbitrary: i ti)
  case Nil
  then show ?case by simp
next
  case (Cons f fs)
  then have f: "id_f f < length ti" "length (vertices f) = 3"
    and rest: "list_all (\<lambda>f. id_f f < length ti \<and> length (vertices f) = 3) fs"
    by simp_all
  show ?case
  proof (cases "upperdelaunay f")
    case True
    from rest have "list_all (\<lambda>g. id_f g < length (ti[id_f f := - 1]) \<and> length (vertices g) = 3) fs"
      by simp
    from Cons.IH [OF this, of i] True f show ?thesis by simp
  next
    case False
    from rest have "list_all (\<lambda>g. id_f g < length (ti[id_f f := i]) \<and> length (vertices g) = 3) fs"
      by simp
    from Cons.IH [OF this, of "i + 1"] obtain ti' rows where
      "triangles_pass fs (i + 1) (ti[id_f f := i]) = Inr (ti', rows)" by blast
    with False f show ?thesis
      by (simp add: and_then_def get_facet_vertices_def)
  qed
qed

lemma neighbour_indices_total:
  "list_all (\<lambda>p. p < length facets) ps \<Longrightarrow>
   list_all (\<lambda>f. id_f f < length ti) facets \<Longrightarrow>
     \<exists>m. neighbour_indices facets ti ps = Inr m"
proof (induction ps)
  case Nil
  then show ?case by simp
next
  case (Cons p ps)
  then obtain m where m: "neighbour_indices facets ti ps = Inr m" by auto
  from Cons.prems have "p < length facets" by simp
  with Cons.prems(2) have "id_f (facets ! p) < length ti"
    by (simp add: list_all_length)
  with \<open>p < length facets\<close> have "\<exists>v. neighbour_index facets ti p = Inr v"
    by (simp add: neighbour_index_def Let_def)
  with m show ?case by (auto simp: and_then_def)
qed

lemma neighbors_pass_total:
  "list_all (\<lambda>f. length (neighbors f) = 3 \<and> list_all (\<lambda>p. p < length facets) (neighbors f)) fs \<Longrightarrow>
   list_all (\<lambda>f. id_f f < length ti) facets \<Longrightarrow>
     \<exists>rows. neighbors_pass facets ti fs = Inr rows"
proof (induction fs)
  case Nil
  then show ?case by simp
next
  case (Cons f fs)
  then obtain rows where r: "neighbors_pass facets ti fs = Inr rows" by auto
  from Cons.prems have l: "length (neighbors f) = 3"
    and "list_all (\<lambda>p. p < length facets) (neighbors f)" by simp_all
  from neighbour_indices_total [OF this(2) Cons.prems(2)] l
  have "\<exists>m. get_facet_neighbours facets f ti = Inr m"
    by (simp add: get_facet_neighbours_def)
  with r show ?case by (auto simp: and_then_def)
qed

text \<open>
  On an engine state of that shape the translation runs to its end: with a zero exit code,
  no failed allocation and no exception left by the destructor, \<^verbatim>\<open>delaunay_impl\<close> returns
  its two arrays.
\<close>

lemma delaunay_impl_succeeds:
  assumes "simplicial (engine_qh env n x y)"
      and "qh_exitcode env (conditioned env n x y) = 0"
      and "\<forall>site. alloc_ok env site"
      and "hide \<longrightarrow> fopen_devnull_ok env"
      and "qh_memfreeshort env (conditioned env n x y) = (0, 0) \<or> \<not> PyErr_WarnEx_fails env"
  shows "\<exists>T N. fst (delaunay_impl env n x y hide) = Inr (T, N)"
proof -
  let ?qh = "engine_qh env n x y"
  let ?F = "facet_list ?qh"
  from assms(1) have
    a: "list_all (\<lambda>f. id_f f < length (replicate (facet_id ?qh) (0::int)) \<and> length (vertices f) = 3) ?F"
    and b: "list_all (\<lambda>f. length (neighbors f) = 3 \<and> list_all (\<lambda>p. p < length ?F) (neighbors f)) ?F"
    and c: "list_all (\<lambda>f. id_f f < facet_id ?qh) ?F"
    by (simp_all add: simplicial_def list_all_iff)
  from triangles_pass_total [OF a, of 0] obtain ti T where
    t: "triangles_pass ?F 0 (replicate (facet_id ?qh) 0) = Inr (ti, T)" by blast
  from triangles_pass_length [OF t] c have "list_all (\<lambda>f. id_f f < length ti) ?F" by simp
  from neighbors_pass_total [OF b this] obtain N where
    nb: "neighbors_pass ?F ti ?F = Inr N" by blast
  from triangles_pass_rows [OF t] have lt: "int (length T) = ntri_pass ?F"
    by (simp add: ntri_pass_retained list_all2_lengthD)
  from neighbors_pass_rows [OF nb] have ln: "int (length N) = ntri_pass ?F"
    by (simp add: ntri_pass_retained list_all2_lengthD)
  from t nb lt ln assms(2,3) have
    "fst (delaunay_impl_guarded env (conditioned env n x y) hide f) = Inr (T, N)" for f
    by (simp add: delaunay_impl_guarded_def Let_def engine_qh_def and_then_def written_def)
  with assms(3,4,5) have "fst (delaunay_impl env n x y hide) = Inr (T, N)"
    by (auto simp: delaunay_impl_fst)
  then show ?thesis by blast
qed

lemma example_simplicial: "simplicial example_qh"
  by (simp add: simplicial_def example_qh_def)

section \<open>Properties of the translation\<close>

text \<open>
  C2. Whenever \<^verbatim>\<open>delaunay_impl\<close> returns its two arrays, row \<open>k\<close> of the triangles array
  belongs to the \<open>k\<close>-th facet that is not on the upper hull, in the order of the facet
  list. That facet has exactly three vertices; writing \<open>(slot0, slot1, slot2)\<close> for their
  point ids in the engine's order, the row is \<open>(slot0, slot1, slot2)\<close> when \<^verbatim>\<open>toporient\<close>
  is set and \<open>(slot2, slot1, slot0)\<close> when it is not.
\<close>

theorem triangles_row_orientation:
  assumes "fst (delaunay_impl env npoints x y hide_qhull_errors) = Inr (triangles, neighbours)"
      and "k < length (retained (engine_facets env npoints x y))"
  shows "\<exists>slot0 slot1 slot2.
           vertices (retained (engine_facets env npoints x y) ! k) = [slot0, slot1, slot2] \<and>
           triangles ! k =
             (if toporient (retained (engine_facets env npoints x y) ! k)
              then [slot0, slot1, slot2] else [slot2, slot1, slot0])"
proof -
  let ?f = "retained (engine_facets env npoints x y) ! k"
  from length_3_list [OF triangle_row_at(1) [OF assms]]
  obtain a b c where "vertices ?f = [a, b, c]" by blast
  with triangle_row_at(2) [OF assms] show ?thesis by simp
qed

theorem triangles_row_orientation_witness:
  "fst (delaunay_impl (example_env True 0 (0, 0)) 5 square_x square_y True) =
     Inr ([[3, 1, 0], [0, 2, 3], [4, 2, 1]], [[2, 1, - 1], [- 1, 2, 0], [- 1, 0, 1]]) \<and>
   vertices (retained (engine_facets (example_env True 0 (0, 0)) 5 square_x square_y) ! 1) = [3, 2, 0] \<and>
   \<not> toporient (retained (engine_facets (example_env True 0 (0, 0)) 5 square_x square_y) ! 1) \<and>
   [[3, 1, 0], [0, 2, 3], [4, 2, 1]] ! 1 = [0, 2, 3 :: int]"
proof -
  have k: "1 < length (retained (engine_facets (example_env True 0 (0, 0)) 5 square_x square_y))"
    by (simp add: example_facets example_retained)
  have v: "vertices (retained (engine_facets (example_env True 0 (0, 0)) 5 square_x square_y) ! 1) = [3, 2, 0]"
    by (simp add: example_facets example_retained) (simp add: example_qh_def)
  have t: "\<not> toporient (retained (engine_facets (example_env True 0 (0, 0)) 5 square_x square_y) ! 1)"
    by (simp add: example_facets example_retained) (simp add: example_qh_def)
  from triangles_row_orientation [OF example_result k] v t example_result show ?thesis by simp
qed

text \<open>
  C1, as the code has it. Whenever \<^verbatim>\<open>delaunay_impl\<close> returns its two arrays, row \<open>k\<close> of
  the neighbours array belongs to the \<open>k\<close>-th facet that is not on the upper hull. Writing
  \<open>(m0, m1, m2)\<close> for its three neighbour entries in the engine's order, each mapped through
  the index map, the row is \<open>(m2, m0, m1)\<close> when \<^verbatim>\<open>toporient\<close> is set and \<open>(m0, m2, m1)\<close>
  when it is not: the reordering of the vertices applied to the entries and then rotated by
  one column, not that reordering with columns 0 and 2 swapped. So the entry in column \<open>c\<close>
  is the one the engine lists at the position of the vertex in column \<open>(c + 2) mod 3\<close> of the
  triangles row; for an engine that lists each neighbour at the position of the vertex
  opposite to it, this is the triangle across the edge from the vertex in column \<open>c\<close> to the
  vertex in column \<open>(c + 1) mod 3\<close>.
\<close>

theorem neighbors_row_order:
  assumes "fst (delaunay_impl env npoints x y hide_qhull_errors) = Inr (triangles, neighbours)"
      and "k < length (retained (engine_facets env npoints x y))"
  shows "\<exists>m0 m1 m2.
           get_facet_neighbours (engine_facets env npoints x y)
             (retained (engine_facets env npoints x y) ! k)
             (tri_indices_of (engine_qh env npoints x y)) = Inr [m0, m1, m2] \<and>
           neighbours ! k =
             (if toporient (retained (engine_facets env npoints x y) ! k)
              then [m2, m0, m1] else [m0, m2, m1]) \<and>
           neighbours ! k =
             (let row = reorder_vertices [m0, m1, m2]
                          (toporient (retained (engine_facets env npoints x y) ! k))
              in [row ! 2, row ! 0, row ! 1]) \<and>
           (\<forall>c<3. \<exists>j<3.
              triangles ! k ! ((c + 2) mod 3) =
                vertices (retained (engine_facets env npoints x y) ! k) ! j \<and>
              neighbours ! k ! c = [m0, m1, m2] ! j)"
proof -
  let ?F = "engine_facets env npoints x y"
  let ?f = "retained ?F ! k"
  let ?ti = "tri_indices_of (engine_qh env npoints x y)"
  from length_3_list [OF triangle_row_at(1) [OF assms]]
  obtain s0 s1 s2 where v: "vertices ?f = [s0, s1, s2]" by blast
  with triangle_row_at(2) [OF assms]
  have t: "triangles ! k = (if toporient ?f then [s0, s1, s2] else [s2, s1, s0])" by simp
  from neighbor_row_at [OF assms]
  obtain m where g: "get_facet_neighbours ?F ?f ?ti = Inr m"
    and r: "neighbours ! k = [if toporient ?f then m ! 2 else m ! 0,
               if toporient ?f then m ! 0 else m ! 2, m ! 1]"
    by blast
  from get_facet_neighbours_Inr [OF g] have "length m = 3" by simp
  from length_3_list [OF this] obtain m0 m1 m2 where m: "m = [m0, m1, m2]" by blast
  have al: "\<forall>c<3. \<exists>j<3. triangles ! k ! ((c + 2) mod 3) = vertices ?f ! j \<and>
              neighbours ! k ! c = [m0, m1, m2] ! j"
  proof (intro allI impI)
    fix c :: nat
    assume "c < 3"
    then consider "c = 0" | "c = 1" | "c = 2" by linarith
    then show "\<exists>j<3. triangles ! k ! ((c + 2) mod 3) = vertices ?f ! j \<and>
              neighbours ! k ! c = [m0, m1, m2] ! j"
    proof cases
      case 1
      show ?thesis
      proof (cases "toporient ?f")
        case True
        with 1 v t r m show ?thesis by (intro exI [of _ 2]) simp
      next
        case False
        with 1 v t r m show ?thesis by (intro exI [of _ 0]) simp
      qed
    next
      case 2
      show ?thesis
      proof (cases "toporient ?f")
        case True
        with 2 v t r m show ?thesis by (intro exI [of _ 0]) simp
      next
        case False
        with 2 v t r m show ?thesis by (intro exI [of _ 2]) simp
      qed
    next
      case 3
      with v t r m show ?thesis by (intro exI [of _ 1]) simp
    qed
  qed
  from g r m have "get_facet_neighbours ?F ?f ?ti = Inr [m0, m1, m2]"
    and "neighbours ! k = (if toporient ?f then [m2, m0, m1] else [m0, m2, m1])"
    and "neighbours ! k =
           (let row = reorder_vertices [m0, m1, m2] (toporient ?f) in [row ! 2, row ! 0, row ! 1])"
    by (simp_all add: reorder_vertices_def)
  with al show ?thesis by blast
qed

theorem neighbors_row_order_witness:
  "fst (delaunay_impl (example_env True 0 (0, 0)) 5 square_x square_y True) =
     Inr ([[3, 1, 0], [0, 2, 3], [4, 2, 1]], [[2, 1, - 1], [- 1, 2, 0], [- 1, 0, 1]]) \<and>
   get_facet_neighbours (facet_list example_qh) (facet_list example_qh ! 2)
     (tri_indices_of example_qh) = Inr [- 1, 0, 2] \<and>
   \<not> toporient (facet_list example_qh ! 2) \<and>
   [[2, 1, - 1], [- 1, 2, 0], [- 1, 0, 1]] ! 1 = [- 1, 2, 0 :: int]"
proof -
  have k: "1 < length (retained (engine_facets (example_env True 0 (0, 0)) 5 square_x square_y))"
    by (simp add: example_facets example_retained)
  have g: "get_facet_neighbours (facet_list example_qh) (facet_list example_qh ! 2)
     (tri_indices_of example_qh) = Inr [- 1, 0, 2]"
    by code_simp
  have t: "\<not> toporient (facet_list example_qh ! 2)"
    by (simp add: example_qh_def)
  from neighbors_row_order [OF example_result k] g t example_result show ?thesis by simp
qed

text \<open>
  C1 as the specification states it fails on the first facet of the concrete run. The facet
  has \<^verbatim>\<open>toporient\<close> set, vertices \<open>(3, 1, 0)\<close> and mapped neighbour entries \<open>(1, -1, 2)\<close>. Its
  triangles row is \<open>(3, 1, 0)\<close>; the vertex reordering with columns 0 and 2 swapped would
  give the neighbours row \<open>(2, -1, 1)\<close>, and the row written is \<open>(2, 1, -1)\<close>. Column 0 of
  the triangles row holds the vertex of position 0, and column 0 of the neighbours row does
  not hold the neighbour entry of position 0.
\<close>

theorem neighbors_row_order_counterexample:
  "fst (delaunay_impl (example_env True 0 (0, 0)) 5 square_x square_y True) =
     Inr ([[3, 1, 0], [0, 2, 3], [4, 2, 1]], [[2, 1, - 1], [- 1, 2, 0], [- 1, 0, 1]]) \<and>
   retained (engine_facets (example_env True 0 (0, 0)) 5 square_x square_y) ! 0 =
     facet_list example_qh ! 0 \<and>
   toporient (facet_list example_qh ! 0) \<and>
   vertices (facet_list example_qh ! 0) = [3, 1, 0] \<and>
   get_facet_neighbours (facet_list example_qh) (facet_list example_qh ! 0)
     (tri_indices_of example_qh) = Inr [1, - 1, 2] \<and>
   reorder_vertices [3, 1, 0] True = [[3, 1, 0], [0, 2, 3], [4, 2, 1]] ! 0 \<and>
   reorder_neighbors_spec [1, - 1, 2] True \<noteq> [[2, 1, - 1], [- 1, 2, 0], [- 1, 0, 1]] ! 0 \<and>
   [[3, 1, 0], [0, 2, 3], [4, 2, 1]] ! 0 ! 0 = vertices (facet_list example_qh ! 0) ! 0 \<and>
   [[2, 1, - 1], [- 1, 2, 0], [- 1, 0, 1]] ! 0 ! 0 \<noteq> [1, - 1, 2 :: int] ! 0"
proof -
  have g: "get_facet_neighbours (facet_list example_qh) (facet_list example_qh ! 0)
     (tri_indices_of example_qh) = Inr [1, - 1, 2]"
    by code_simp
  have r: "retained (engine_facets (example_env True 0 (0, 0)) 5 square_x square_y) ! 0 =
     facet_list example_qh ! 0"
    by (simp add: example_facets example_retained)
  have f: "toporient (facet_list example_qh ! 0)" "vertices (facet_list example_qh ! 0) = [3, 1, 0]"
    by (simp_all add: example_qh_def)
  have s: "reorder_vertices [3, 1, 0] True = [3, 1, 0]"
    "reorder_neighbors_spec [1, - 1, 2] True = [2, - 1, 1]"
    by (simp_all add: reorder_vertices_def reorder_neighbors_spec_def)
  from example_result g r f s show ?thesis by simp
qed

text \<open>
  C3. Whenever \<^verbatim>\<open>delaunay_impl\<close> returns its two arrays, the neighbours array has \<open>ntri\<close>
  rows, \<open>ntri\<close> being the number of facets with \<^verbatim>\<open>upperdelaunay\<close> false, and every entry of
  it is -1 or a row index from 0 up to, not including, \<open>ntri\<close>. The entries of a row are
  the mapped neighbour entries of its facet, and the entry for a neighbour on the upper hull
  is -1. When the facet ids are distinct, the index map sends the id of every facet on the
  upper hull to -1 and the id of every other facet to the number of retained facets before
  it in the facet list: the indices 0, 1, ... are handed out in enumeration order.
\<close>

theorem neighbors_entries_valid:
  assumes "fst (delaunay_impl env npoints x y hide_qhull_errors) = Inr (triangles, neighbours)"
  shows "int (length neighbours) = ntri_pass (engine_facets env npoints x y) \<and>
         ntri_pass (engine_facets env npoints x y) =
           int (length (filter (\<lambda>facet. \<not> upperdelaunay facet) (engine_facets env npoints x y))) \<and>
         (\<forall>row \<in> set neighbours. \<forall>e \<in> set row.
            e = - 1 \<or> (0 \<le> e \<and> e < ntri_pass (engine_facets env npoints x y))) \<and>
         (\<forall>k < length (retained (engine_facets env npoints x y)).
            \<exists>m. get_facet_neighbours (engine_facets env npoints x y)
                   (retained (engine_facets env npoints x y) ! k)
                   (tri_indices_of (engine_qh env npoints x y)) = Inr m \<and>
                set (neighbours ! k) = set m \<and>
                (\<forall>j<3. upperdelaunay (engine_facets env npoints x y !
                           (neighbors (retained (engine_facets env npoints x y) ! k) ! j))
                        \<longrightarrow> m ! j = - 1)) \<and>
         (distinct (map id_f (engine_facets env npoints x y)) \<longrightarrow>
            (\<forall>p < length (engine_facets env npoints x y).
               tri_indices_of (engine_qh env npoints x y) ! id_f (engine_facets env npoints x y ! p) =
                 (if upperdelaunay (engine_facets env npoints x y ! p) then - 1
                  else int (length (retained (take p (engine_facets env npoints x y)))))))"
proof -
  let ?F = "engine_facets env npoints x y"
  let ?ti = "tri_indices_of (engine_qh env npoints x y)"
  note tp = delaunay_impl_passes(1) [OF assms]
  note np = delaunay_impl_passes(2) [OF assms]
  have len: "length neighbours = length (retained ?F)"
    using neighbors_pass_rows [OF np] by (simp add: list_all2_lengthD)
  then have c1: "int (length neighbours) = ntri_pass ?F"
    by (simp add: ntri_pass_retained)
  have c2: "ntri_pass ?F = int (length (filter (\<lambda>facet. \<not> upperdelaunay facet) ?F))"
    by (simp add: ntri_pass_retained retained_def)
  have rng: "\<forall>e \<in> set ?ti. e = - 1 \<or> e = 0 \<or> (0 \<le> e \<and> e < ntri_pass ?F)"
    using triangles_pass_range [OF tp] by simp
  have rows: "\<And>k. k < length (retained ?F) \<Longrightarrow>
      \<exists>m. get_facet_neighbours ?F (retained ?F ! k) ?ti = Inr m \<and> length m = 3 \<and>
          set (neighbours ! k) = set m \<and>
          (\<forall>j<3. neighbour_index ?F ?ti (neighbors (retained ?F ! k) ! j) = Inr (m ! j))"
  proof -
    fix k assume k: "k < length (retained ?F)"
    from neighbor_row_at [OF assms k] obtain m where
      g: "get_facet_neighbours ?F (retained ?F ! k) ?ti = Inr m" and
      r: "neighbours ! k = [if toporient (retained ?F ! k) then m ! 2 else m ! 0,
                if toporient (retained ?F ! k) then m ! 0 else m ! 2, m ! 1]"
      by blast
    from get_facet_neighbours_Inr [OF g] have l: "length m = 3"
      and ni: "\<forall>j<3. neighbour_index ?F ?ti (neighbors (retained ?F ! k) ! j) = Inr (m ! j)"
      by simp_all
    from length_3_list [OF l] obtain a b c where "m = [a, b, c]" by blast
    with r have "set (neighbours ! k) = set m" by auto
    with g l ni show "\<exists>m. get_facet_neighbours ?F (retained ?F ! k) ?ti = Inr m \<and> length m = 3 \<and>
          set (neighbours ! k) = set m \<and>
          (\<forall>j<3. neighbour_index ?F ?ti (neighbors (retained ?F ! k) ! j) = Inr (m ! j))"
      by blast
  qed
  have c3: "\<forall>row \<in> set neighbours. \<forall>e \<in> set row. e = - 1 \<or> (0 \<le> e \<and> e < ntri_pass ?F)"
  proof (intro ballI)
    fix row e
    assume "row \<in> set neighbours" and e: "e \<in> set row"
    then obtain k where k: "k < length neighbours" and row: "row = neighbours ! k"
      by (auto simp: in_set_conv_nth)
    from k len have k': "k < length (retained ?F)" by simp
    then have pos: "0 < ntri_pass ?F" by (auto simp: ntri_pass_retained)
    from rows [OF k'] obtain m where l: "length m = 3" and s: "set (neighbours ! k) = set m"
      and ni: "\<forall>j<3. neighbour_index ?F ?ti (neighbors (retained ?F ! k) ! j) = Inr (m ! j)"
      by blast
    from e row s obtain j where "j < length m" and "e = m ! j"
      by (auto simp: in_set_conv_nth)
    with l ni have "neighbour_index ?F ?ti (neighbors (retained ?F ! k) ! j) = Inr e" by simp
    from neighbour_index_range [OF this rng pos]
    show "e = - 1 \<or> (0 \<le> e \<and> e < ntri_pass ?F)" .
  qed
  have c4: "\<forall>k < length (retained ?F).
            \<exists>m. get_facet_neighbours ?F (retained ?F ! k) ?ti = Inr m \<and>
                set (neighbours ! k) = set m \<and>
                (\<forall>j<3. upperdelaunay (?F ! (neighbors (retained ?F ! k) ! j)) \<longrightarrow> m ! j = - 1)"
  proof (intro allI impI)
    fix k assume "k < length (retained ?F)"
    from rows [OF this] obtain m where
      g: "get_facet_neighbours ?F (retained ?F ! k) ?ti = Inr m" and
      s: "set (neighbours ! k) = set m" and
      ni: "\<forall>j<3. neighbour_index ?F ?ti (neighbors (retained ?F ! k) ! j) = Inr (m ! j)"
      by blast
    from ni have "\<forall>j<3. upperdelaunay (?F ! (neighbors (retained ?F ! k) ! j)) \<longrightarrow> m ! j = - 1"
      by (blast intro: neighbour_index_upper)
    with g s show "\<exists>m. get_facet_neighbours ?F (retained ?F ! k) ?ti = Inr m \<and>
                set (neighbours ! k) = set m \<and>
                (\<forall>j<3. upperdelaunay (?F ! (neighbors (retained ?F ! k) ! j)) \<longrightarrow> m ! j = - 1)"
      by blast
  qed
  have c5: "distinct (map id_f ?F) \<longrightarrow>
            (\<forall>p < length ?F. ?ti ! id_f (?F ! p) =
                 (if upperdelaunay (?F ! p) then - 1 else int (length (retained (take p ?F)))))"
    using triangles_pass_index [OF tp] by simp
  from c1 c2 c3 c4 c5 show ?thesis by blast
qed

theorem neighbors_entries_valid_witness:
  "fst (delaunay_impl (example_env True 0 (0, 0)) 5 square_x square_y True) =
     Inr ([[3, 1, 0], [0, 2, 3], [4, 2, 1]], [[2, 1, - 1], [- 1, 2, 0], [- 1, 0, 1]]) \<and>
   ntri_pass (facet_list example_qh) = 3 \<and>
   distinct (map id_f (facet_list example_qh)) \<and>
   tri_indices_of example_qh ! id_f (facet_list example_qh ! 4) = 2 \<and>
   upperdelaunay (facet_list example_qh ! 1) \<and>
   tri_indices_of example_qh ! id_f (facet_list example_qh ! 1) = - 1"
proof -
  have n: "ntri_pass (facet_list example_qh) = 3"
    by (simp add: example_qh_def)
  have d: "distinct (map id_f (facet_list example_qh))"
    by (simp add: example_qh_def)
  have u: "upperdelaunay (facet_list example_qh ! 1)"
    by (simp add: example_qh_def)
  have i: "tri_indices_of example_qh ! id_f (facet_list example_qh ! 4) = 2"
    "tri_indices_of example_qh ! id_f (facet_list example_qh ! 1) = - 1"
    by (simp_all add: example_tri_indices) (simp_all add: example_qh_def)
  from neighbors_entries_valid [OF example_result] n d u i example_result
  show ?thesis by simp
qed




section \<open>Properties of the validation\<close>






section \<open>Properties of the error paths and of clean-up\<close>

text \<open>
  C5. For an exit code from 1 to 5 the call fails with the category text of the table and
  the exit code, and returns no array (lemma \<open>delaunay_impl_guarded_error\<close>). There is no
  fallback for other codes: the table is indexed with the exit code as it is, so an exit
  code of 6 reads past its six entries. In the concrete run with an engine that returns 6,
  the call ends in undefined behaviour and not in an engine error; with 5 it fails as the
  claim says.
\<close>

theorem exit_code_outside_table:
  "qhull_error_msg 6 = None \<and>
   qh_exitcode (example_env True 6 (0, 0))
     (conditioned (example_env True 6 (0, 0)) 5 square_x square_y) = 6 \<and>
   fst (delaunay (example_env True 6 (0, 0)) square_x square_y 0) = Inl Cpp_undefined \<and>
   fst (delaunay (example_env True 5 (0, 0)) square_x square_y 0) =
     Inl (RuntimeError_qhull ''internal error'' 5 True)"
  by code_simp

text \<open>
  C8, as the code has it. When the null device can be opened, what a caller can tell of the
  outcome of \<^verbatim>\<open>delaunay\<close> (success, the invalid-input message, or the engine's category and
  exit code) is the same for every value of \<^verbatim>\<open>verbose\<close>; the engine is given the null
  device only when \<^verbatim>\<open>verbose\<close> is 0 and the standard error stream only when it is not.
\<close>

theorem classification_independent_of_verbose:
  assumes "fopen_devnull_ok env"
  shows "classification (fst (delaunay env x y verbose)) =
           classification (fst (delaunay env x y verbose')) \<and>
         (Qh_new_qhull Devnull_file \<in> set (snd (delaunay env x y verbose)) \<longrightarrow> verbose = 0) \<and>
         (Qh_new_qhull Stderr_file \<in> set (snd (delaunay env x y verbose)) \<longrightarrow> verbose \<noteq> 0)"
proof -
  have "classification (fst (delaunay_impl env n x y h)) =
        classification (fst (delaunay_impl env n x y h'))" for n h h'
  proof -
    let ?r = "fst (delaunay_impl_guarded env (conditioned env n x y) h
                     (if h then Devnull_file else Stderr_file))"
    let ?r' = "fst (delaunay_impl_guarded env (conditioned env n x y) h'
                      (if h' then Devnull_file else Stderr_file))"
    let ?b = "qh_memfreeshort env (conditioned env n x y) \<noteq> (0, 0) \<and> PyErr_WarnEx_fails env"
    have g: "classification ?r = classification ?r'"
      by (rule classification_guarded)
    have k: "classification (case r of
                Inr arrays \<Rightarrow> if b then Inl Py_SystemError else Inr arrays | Inl e \<Rightarrow> Inl e) =
             (if b \<and> classification r = Succeeded then Other_failure Py_SystemError
              else classification r)" for r :: "error + int list list \<times> int list list" and b
      by (auto simp: classification_def split: sum.splits error.splits)
    have "classification (case ?r of
                Inr arrays \<Rightarrow> if ?b then Inl Py_SystemError else Inr arrays | Inl e \<Rightarrow> Inl e) =
          classification (case ?r' of
                Inr arrays \<Rightarrow> if ?b then Inl Py_SystemError else Inr arrays | Inl e \<Rightarrow> Inl e)"
      by (simp only: k g)
    with assms show ?thesis
      by (simp add: delaunay_impl_fst)
  qed
  then have a: "classification (fst (delaunay env x y verbose)) =
           classification (fst (delaunay env x y verbose'))"
    by (simp add: delaunay_fst)
  have b: "Qh_new_qhull f \<in> set (snd (delaunay_impl env n x y h)) \<Longrightarrow>
           f = (if h then Devnull_file else Stderr_file)" for f n h
    using destructor_calls [of env "conditioned env n x y" "if h then Devnull_file else Stderr_file"]
    by (auto simp: delaunay_impl_snd delaunay_impl_guarded_snd split: if_splits)
  have c: "Qh_new_qhull Devnull_file \<in> set (snd (delaunay env x y verbose)) \<longrightarrow> verbose = 0"
    using b [of Devnull_file "length x" "verbose = 0"]
    by (auto simp: delaunay_snd split: if_splits)
  have d: "Qh_new_qhull Stderr_file \<in> set (snd (delaunay env x y verbose)) \<longrightarrow> verbose \<noteq> 0"
    using b [of Stderr_file "length x" "verbose = 0"]
    by (auto simp: delaunay_snd split: if_splits)
  from a c d show ?thesis by blast
qed

theorem classification_independent_of_verbose_witness:
  "fopen_devnull_ok (example_env True 2 (0, 0)) \<and>
   classification (fst (delaunay (example_env True 2 (0, 0)) square_x square_y 0)) =
     Engine_error ''singular input data'' 2 \<and>
   classification (fst (delaunay (example_env True 2 (0, 0)) square_x square_y 1)) =
     Engine_error ''singular input data'' 2 \<and>
   Qh_new_qhull Devnull_file \<in> set (snd (delaunay (example_env True 2 (0, 0)) square_x square_y 0)) \<and>
   Qh_new_qhull Stderr_file \<in> set (snd (delaunay (example_env True 2 (0, 0)) square_x square_y 1))"
proof -
  have o: "fopen_devnull_ok (example_env True 2 (0, 0))"
    by (simp add: example_env_def)
  have e: "classification (fst (delaunay (example_env True 2 (0, 0)) square_x square_y 0)) =
     Engine_error ''singular input data'' 2"
    "Qh_new_qhull Devnull_file \<in> set (snd (delaunay (example_env True 2 (0, 0)) square_x square_y 0))"
    "Qh_new_qhull Stderr_file \<in> set (snd (delaunay (example_env True 2 (0, 0)) square_x square_y 1))"
    by code_simp+
  from classification_independent_of_verbose [OF o, of square_x square_y 0 1] o e
  show ?thesis by simp
qed

text \<open>
  C8 as the specification states it fails where the null device cannot be opened: on the
  same arrays, the call that hides the diagnostics fails with \<open>Could not open devnull\<close> before
  the engine is run, and the call that shows them fails with the engine's category and exit
  code.
\<close>

theorem classification_independent_of_verbose_counterexample:
  "classification (fst (delaunay (example_env False 2 (0, 0)) square_x square_y 0)) =
     Other_failure (Cpp_runtime_error ''Could not open devnull'') \<and>
   classification (fst (delaunay (example_env False 2 (0, 0)) square_x square_y 1)) =
     Engine_error ''singular input data'' 2 \<and>
   classification (fst (delaunay (example_env False 2 (0, 0)) square_x square_y 0)) \<noteq>
   classification (fst (delaunay (example_env False 2 (0, 0)) square_x square_y 1))"
  by code_simp

text \<open>
  Clean-up. On every path of \<^verbatim>\<open>delaunay_impl\<close> on which the engine has been called, the
  calls end with \<^verbatim>\<open>qh_freeqhull\<close> and \<^verbatim>\<open>qh_memfreeshort\<close>, followed by no further call to
  the engine: the destructor of the guard object runs on success, on an engine error and on
  a failed allocation alike. The only paths without a call to the engine are the two that
  leave before the guard object exists, when the vector of points cannot be allocated and
  when the null device cannot be opened. The warning is issued only when one of the counts
  that \<^verbatim>\<open>qh_memfreeshort\<close> reports is not zero, and as long as \<^verbatim>\<open>PyErr_WarnEx\<close> does not
  fail those counts have no influence on the result of the call.
\<close>

lemma engine_released_on_every_path:
  "((\<exists>c \<in> set (snd (delaunay_impl env n x y hide)). engine_call c) \<longrightarrow>
      (\<exists>pre post. snd (delaunay_impl env n x y hide) =
           pre @ [Qh_freeqhull, Qh_memfreeshort] @ post \<and>
         (\<forall>c \<in> set post. \<not> engine_call c))) \<and>
   (\<not> PyErr_WarnEx_fails env \<longrightarrow>
      fst (delaunay_impl (env\<lparr>qh_memfreeshort := residual\<rparr>) n x y hide) =
        fst (delaunay_impl env n x y hide)) \<and>
   (PyErr_WarnEx ''Qhull could not free all allocated memory''
        \<in> set (snd (delaunay_impl env n x y hide)) \<longrightarrow>
      qh_memfreeshort env (conditioned env n x y) \<noteq> (0, 0)) \<and>
   ((\<forall>c \<in> set (snd (delaunay_impl env n x y hide)). \<not> engine_call c) \<longrightarrow>
      delaunay_impl env n x y hide = (Inl Cpp_bad_alloc, []) \<or>
      delaunay_impl env n x y hide =
        (Inl (Cpp_runtime_error ''Could not open devnull''), [Fopen_devnull]))"
proof -
  let ?points = "conditioned env n x y"
  let ?file = "if hide then Devnull_file else Stderr_file"
  have a: "(\<exists>c \<in> set (snd (delaunay_impl env n x y hide)). engine_call c) \<longrightarrow>
      (\<exists>pre post. snd (delaunay_impl env n x y hide) =
           pre @ [Qh_freeqhull, Qh_memfreeshort] @ post \<and>
         (\<forall>c \<in> set post. \<not> engine_call c))"
  proof
    assume e: "\<exists>c \<in> set (snd (delaunay_impl env n x y hide)). engine_call c"
    then have run: "snd (delaunay_impl env n x y hide) =
        ((if hide then [Fopen_devnull] else []) @
           snd (delaunay_impl_guarded env ?points hide ?file)) @
           fst (QhullInfo_destructor env ?points ?file)"
      by (auto simp: delaunay_impl_snd split: if_splits)
    from destructor_shape [of env ?points ?file] obtain post where
      "fst (QhullInfo_destructor env ?points ?file) = [Qh_freeqhull, Qh_memfreeshort] @ post"
      and "\<forall>c \<in> set post. \<not> engine_call c"
      by blast
    with run show "\<exists>pre post. snd (delaunay_impl env n x y hide) =
           pre @ [Qh_freeqhull, Qh_memfreeshort] @ post \<and>
         (\<forall>c \<in> set post. \<not> engine_call c)"
      by metis
  qed
  have b: "\<not> PyErr_WarnEx_fails env \<longrightarrow>
      fst (delaunay_impl (env\<lparr>qh_memfreeshort := residual\<rparr>) n x y hide) =
        fst (delaunay_impl env n x y hide)"
    by (auto simp: delaunay_impl_fst split: sum.splits)
  have c: "PyErr_WarnEx ''Qhull could not free all allocated memory''
        \<in> set (snd (delaunay_impl env n x y hide)) \<longrightarrow>
      qh_memfreeshort env ?points \<noteq> (0, 0)"
    by (auto simp: delaunay_impl_snd delaunay_impl_guarded_snd destructor_fst
        split: if_splits)
  have d: "(\<forall>c \<in> set (snd (delaunay_impl env n x y hide)). \<not> engine_call c) \<longrightarrow>
      delaunay_impl env n x y hide = (Inl Cpp_bad_alloc, []) \<or>
      delaunay_impl env n x y hide =
        (Inl (Cpp_runtime_error ''Could not open devnull''), [Fopen_devnull])"
    by (auto simp: delaunay_impl_snd delaunay_impl_fst delaunay_impl_guarded_snd prod_eq_iff
        split: if_splits)
  from a b c d show ?thesis by blast
qed

text \<open>
  C9. The engine's memory is released on every path (lemma \<open>engine_released_on_every_path\<close>),
  but the warning about memory that could not be freed is not always harmless. The
  destructor ignores what \<^verbatim>\<open>PyErr_WarnEx\<close> returns. Where that call fails, as it does when
  warnings are turned into errors, the tuple is returned with an exception set and the
  caller gets a \<open>SystemError\<close> in place of the arrays. In the concrete run with such a
  \<^verbatim>\<open>PyErr_WarnEx\<close>, the call returns the arrays when the counts are zero and loses them when
  a count is 7, after the engine's memory has been released and the warning attempted; with
  a \<^verbatim>\<open>PyErr_WarnEx\<close> that does not fail the same counts leave the arrays alone.
\<close>

theorem failed_warning_discards_result:
  "fst (delaunay_impl ((example_env True 0 (0, 0))\<lparr>PyErr_WarnEx_fails := True\<rparr>)
         5 square_x square_y True) =
     Inr ([[3, 1, 0], [0, 2, 3], [4, 2, 1]], [[2, 1, - 1], [- 1, 2, 0], [- 1, 0, 1]]) \<and>
   delaunay_impl ((example_env True 0 (0, 7))\<lparr>PyErr_WarnEx_fails := True\<rparr>)
     5 square_x square_y True =
     (Inl Py_SystemError,
      [Fopen_devnull, Qh_zero Devnull_file, Qh_new_qhull Devnull_file, Qh_triangulate,
       Qh_freeqhull, Qh_memfreeshort,
       PyErr_WarnEx ''Qhull could not free all allocated memory'', Fclose]) \<and>
   fst (delaunay_impl (example_env True 0 (0, 7)) 5 square_x square_y True) =
     Inr ([[3, 1, 0], [0, 2, 3], [4, 2, 1]], [[2, 1, - 1], [- 1, 2, 0], [- 1, 0, 1]])"
  by code_simp

section \<open>Translation of the input\<close>




end
